theory Spec2Isabelle
  imports Main "HOL-Library.Sublist"
begin

section \<open>Exceptions (capybara/exceptions.py)\<close>

text \<open>
  The module declares nine classes, each with an empty body and one base class.
  \<open>Exception\<close> is Python's builtin base of them all; \<open>TypeError\<close> stands for the
  builtin failures that are no \<open>CapybaraError\<close> (what Python raises for malformed
  arguments).
\<close>

datatype exc_class =
    Exception
  | TypeError
  | CapybaraError
  | ElementNotFound
  | ModalNotFound
  | Ambiguous
  | ExpectationNotMet
  | FileNotFound
  | UnselectNotAllowed
  | ScopeError
  | WindowError

text \<open>The base class written in each \<open>class\<close> statement.\<close>

fun base :: "exc_class \<Rightarrow> exc_class option" where
  "base Exception = None"
| "base TypeError = Some Exception"
| "base CapybaraError = Some Exception"
| "base ElementNotFound = Some CapybaraError"
| "base ModalNotFound = Some CapybaraError"
| "base Ambiguous = Some ElementNotFound"
| "base ExpectationNotMet = Some ElementNotFound"
| "base FileNotFound = Some CapybaraError"
| "base UnselectNotAllowed = Some CapybaraError"
| "base ScopeError = Some CapybaraError"
| "base WindowError = Some CapybaraError"

text \<open>Distance to the root of the hierarchy; only the termination proof of \<open>mro\<close> uses it.\<close>

fun rank :: "exc_class \<Rightarrow> nat" where
  "rank Exception = 0"
| "rank TypeError = 1"
| "rank CapybaraError = 1"
| "rank ElementNotFound = 2"
| "rank ModalNotFound = 2"
| "rank Ambiguous = 3"
| "rank ExpectationNotMet = 3"
| "rank FileNotFound = 2"
| "rank UnselectNotAllowed = 2"
| "rank ScopeError = 2"
| "rank WindowError = 2"

text \<open>
  The method resolution order of a class under single inheritance: the class, then the
  order of its base.
\<close>

function mro :: "exc_class \<Rightarrow> exc_class list" where
  "mro c = c # (case base c of None \<Rightarrow> [] | Some b \<Rightarrow> mro b)"
  by pat_completeness auto
termination
proof (relation "measure rank")
  fix c b assume "base c = Some b"
  then have "rank b < rank c" by (cases c) auto
  then show "(b, c) \<in> measure rank" by simp
qed simp

declare mro.simps [simp del]

definition issubclass :: "exc_class \<Rightarrow> exc_class \<Rightarrow> bool" where
  "issubclass c d = (d \<in> set (mro c))"

text \<open>An exception object: its class and the message it was constructed with.\<close>

datatype exn = Exn (exc_cls: exc_class) (exc_msg: string)

definition isinstance :: "exn \<Rightarrow> exc_class \<Rightarrow> bool" where
  "isinstance e d = issubclass (exc_cls e) d"


section \<open>Python values\<close>

text \<open>
  The values that flow through the matchers: positional arguments, keyword arguments and
  return values. \<open>VObj\<close> is an opaque object (an XPath expression built with the
  \<open>xpath\<close> package, say). \<open>truthy\<close> is Python's truth test, the one \<open>if not matches\<close>
  applies.
\<close>

datatype pyval =
    VNone
  | VBool bool
  | VInt int
  | VStr string
  | VList "pyval list"
  | VObj nat

fun truthy :: "pyval \<Rightarrow> bool" where
  "truthy VNone = False"
| "truthy (VBool b) = b"
| "truthy (VInt i) = (i \<noteq> 0)"
| "truthy (VStr s) = (s \<noteq> [])"
| "truthy (VList xs) = (xs \<noteq> [])"
| "truthy (VObj a) = True"

text \<open>
  \<open>kwargs\<close> is the keyword arguments of a call, in the order they were passed, other
  than \<open>self\<close>, which a method call binds itself. A call returns a value or raises
  (\<open>Inl\<close> is the raised exception) and leaves the world in a new state; the world \<open>'w\<close>
  is everything outside the matcher that a call can read or change: the live document,
  the clock.
\<close>

type_synonym kwargs = "(string \<times> pyval) list"

type_synonym 'a outcome = "exn + 'a"

type_synonym ('w, 'a) action = "'w \<Rightarrow> 'a outcome \<times> 'w"

section \<open>The matchers (capybara/node/matchers.py)\<close>

text \<open>
  \<open>MatchersMixin\<close> is mixed into a node or session, which supplies what the methods
  call and this module does not define. The record holds those collaborators:
  \<^item> \<open>SelectorQuery\<close> and \<open>TextQuery\<close>, the constructors imported from
    \<open>capybara.queries\<close>, called with \<open>*args, **kwargs\<close>; each returns a query or raises;
  \<^item> \<open>selector_resolve_for\<close>, the \<open>resolve_for\<close> of a selector query, which returns a
    result; \<open>result_len\<close> (\<open>len(result)\<close>) and \<open>result_failure_message\<close>
    (\<open>result.failure_message\<close>);
  \<^item> \<open>text_resolve_for\<close>, the \<open>resolve_for\<close> of a text query, and \<open>text_failure_message\<close>
    (\<open>query.failure_message\<close>, read after the query was resolved, so in the world
    that resolving left);
  \<^item> \<open>synchronize\<close>, the decorator \<open>self.synchronize\<close>: it takes the zero-argument
    function and returns the function that is then called.
\<close>

record ('w, 'q, 'r, 't) node =
  SelectorQuery :: "pyval list \<Rightarrow> kwargs \<Rightarrow> 'q outcome"
  selector_resolve_for :: "'q \<Rightarrow> ('w, 'r) action"
  result_len :: "'r \<Rightarrow> nat"
  result_failure_message :: "'r \<Rightarrow> string"
  TextQuery :: "pyval list \<Rightarrow> kwargs \<Rightarrow> 't outcome"
  text_resolve_for :: "'t \<Rightarrow> ('w, pyval) action"
  text_failure_message :: "'t \<Rightarrow> 'w \<Rightarrow> string"
  synchronize :: "('w, pyval) action \<Rightarrow> ('w, pyval) action"

text \<open>
  The function that \<open>assert_selector\<close> defines and decorates (it has the name
  \<open>assert_selector\<close> too): resolve the query for this node; raise on an empty result.
\<close>

definition assert_selector_probe ::
  "('w, 'q, 'r, 't) node \<Rightarrow> 'q \<Rightarrow> ('w, pyval) action" where
  "assert_selector_probe self query w =
     (case selector_resolve_for self query w of
        (Inl e, w') \<Rightarrow> (Inl e, w')
      | (Inr result, w') \<Rightarrow>
          if result_len self result = 0
          then (Inl (Exn ExpectationNotMet (result_failure_message self result)), w')
          else (Inr (VBool True), w'))"

definition assert_selector ::
  "('w, 'q, 'r, 't) node \<Rightarrow> pyval list \<Rightarrow> kwargs \<Rightarrow> ('w, pyval) action" where
  "assert_selector self args kwargs w =
     (case SelectorQuery self args kwargs of
        Inl e \<Rightarrow> (Inl e, w)
      | Inr query \<Rightarrow> synchronize self (assert_selector_probe self query) w)"

definition has_selector ::
  "('w, 'q, 'r, 't) node \<Rightarrow> pyval list \<Rightarrow> kwargs \<Rightarrow> ('w, pyval) action" where
  "has_selector self args kwargs w =
     (case assert_selector self args kwargs w of
        (Inr v, w') \<Rightarrow> (Inr (VBool True), w')
      | (Inl e, w') \<Rightarrow>
          if isinstance e ExpectationNotMet then (Inr (VBool False), w') else (Inl e, w'))"

text \<open>
  \<open>has_xpath\<close>, \<open>has_css\<close>, \<open>has_button\<close> and \<open>has_link\<close> name their first
  parameter (\<open>query\<close>, \<open>path\<close>, \<open>locator\<close>), which the positional argument binds. A
  keyword argument of that name cannot be bound a second time: the call raises a
  \<open>TypeError\<close> before the body runs. Every other keyword goes into \<open>**kwargs\<close> and on
  to \<open>has_selector\<close>, whose \<open>*args, **kwargs\<close> accept all of them.
\<close>

definition multiple_values :: "string \<Rightarrow> string \<Rightarrow> exn" where
  "multiple_values f p =
     Exn TypeError (f @ ''() got multiple values for argument '' @ [CHR 0x27] @ p @ [CHR 0x27])"

definition has_xpath ::
  "('w, 'q, 'r, 't) node \<Rightarrow> pyval \<Rightarrow> kwargs \<Rightarrow> ('w, pyval) action" where
  "has_xpath self query kwargs w =
     (if ''query'' \<in> set (map fst kwargs)
      then (Inl (multiple_values ''has_xpath'' ''query''), w)
      else has_selector self [VStr ''xpath'', query] kwargs w)"

definition has_css ::
  "('w, 'q, 'r, 't) node \<Rightarrow> pyval \<Rightarrow> kwargs \<Rightarrow> ('w, pyval) action" where
  "has_css self path kwargs w =
     (if ''path'' \<in> set (map fst kwargs)
      then (Inl (multiple_values ''has_css'' ''path''), w)
      else has_selector self [VStr ''css'', path] kwargs w)"

definition has_button ::
  "('w, 'q, 'r, 't) node \<Rightarrow> pyval \<Rightarrow> kwargs \<Rightarrow> ('w, pyval) action" where
  "has_button self locator kwargs w =
     (if ''locator'' \<in> set (map fst kwargs)
      then (Inl (multiple_values ''has_button'' ''locator''), w)
      else has_selector self [VStr ''button'', locator] kwargs w)"

definition has_link ::
  "('w, 'q, 'r, 't) node \<Rightarrow> pyval \<Rightarrow> kwargs \<Rightarrow> ('w, pyval) action" where
  "has_link self locator kwargs w =
     (if ''locator'' \<in> set (map fst kwargs)
      then (Inl (multiple_values ''has_link'' ''locator''), w)
      else has_selector self [VStr ''link'', locator] kwargs w)"

text \<open>The function that \<open>assert_text\<close> defines and decorates.\<close>

definition assert_text_probe ::
  "('w, 'q, 'r, 't) node \<Rightarrow> 't \<Rightarrow> ('w, pyval) action" where
  "assert_text_probe self query w =
     (case text_resolve_for self query w of
        (Inl e, w') \<Rightarrow> (Inl e, w')
      | (Inr matches, w') \<Rightarrow>
          if \<not> truthy matches
          then (Inl (Exn ExpectationNotMet (text_failure_message self query w')), w')
          else (Inr (VBool True), w'))"

definition assert_text ::
  "('w, 'q, 'r, 't) node \<Rightarrow> pyval list \<Rightarrow> kwargs \<Rightarrow> ('w, pyval) action" where
  "assert_text self args kwargs w =
     (case TextQuery self args kwargs of
        Inl e \<Rightarrow> (Inl e, w)
      | Inr query \<Rightarrow> synchronize self (assert_text_probe self query) w)"

text \<open>\<open>has_text\<close> returns what \<open>assert_text\<close> returned, where \<open>has_selector\<close> returns \<open>True\<close>.\<close>

definition has_text ::
  "('w, 'q, 'r, 't) node \<Rightarrow> pyval list \<Rightarrow> kwargs \<Rightarrow> ('w, pyval) action" where
  "has_text self args kwargs w =
     (case assert_text self args kwargs w of
        (Inr v, w') \<Rightarrow> (Inr v, w')
      | (Inl e, w') \<Rightarrow>
          if isinstance e ExpectationNotMet then (Inr (VBool False), w') else (Inl e, w'))"

definition has_content ::
  "('w, 'q, 'r, 't) node \<Rightarrow> pyval list \<Rightarrow> kwargs \<Rightarrow> ('w, pyval) action" where
  "has_content = has_text"

section \<open>The synchronization engine\<close>

text \<open>
  Modelled from the spec: \<open>synchronize\<close>, the method of the node that the matchers
  decorate their probes with; the module that defines it is not among the sources.
  The spec (4.4, 7): invoke the probe; when it returns normally, return that value at
  once; when it raises a condition of the \<open>ElementNotFound\<close> family and the deadline has
  not passed, pause briefly and retry; when the deadline has passed, re-raise that last
  condition unchanged; a failure outside the family surfaces immediately; a wait time
  of zero is exactly one attempt. Time is counted in retry intervals: \<open>n\<close> is the number
  of pauses that fit before the deadline, and \<open>pause\<close> is what one pause does to the
  world (the clock advances, the page may change).
\<close>

fun synchronize_spec ::
  "('w \<Rightarrow> 'w) \<Rightarrow> nat \<Rightarrow> ('w, 'a) action \<Rightarrow> ('w, 'a) action" where
  "synchronize_spec pause 0 probe w = probe w"
| "synchronize_spec pause (Suc n) probe w =
     (case probe w of
        (Inr v, w') \<Rightarrow> (Inr v, w')
      | (Inl e, w') \<Rightarrow>
          if isinstance e ElementNotFound
          then synchronize_spec pause n probe (pause w')
          else (Inl e, w'))"

text \<open>The world in which the attempt that decides \<open>synchronize_spec\<close> starts.\<close>

fun last_attempt ::
  "('w \<Rightarrow> 'w) \<Rightarrow> nat \<Rightarrow> ('w, 'a) action \<Rightarrow> 'w \<Rightarrow> 'w" where
  "last_attempt pause 0 probe w = w"
| "last_attempt pause (Suc n) probe w =
     (case probe w of
        (Inr v, w') \<Rightarrow> w
      | (Inl e, w') \<Rightarrow>
          if isinstance e ElementNotFound
          then last_attempt pause n probe (pause w')
          else w)"

section \<open>Selector queries and result sets\<close>

text \<open>
  Modelled from the spec: the Selector Specification, the Result Set and the
  \<open>resolve_for\<close> of a Selector Query (\<open>capybara.queries.selector_query\<close> and the result
  class are not among the sources). The spec (3, 4.1, 4.2, 6): a specification has a
  kind, a locator, filters (predicate name and expected value) and optional count
  constraints, by default at least one; \<open>resolve_for\<close> issues the scope's lookup for kind
  and locator, keeps the candidates that satisfy all filters, in document order, and
  returns a Result Set over them; it raises nothing and only reads the scope. The Result
  Set answers its length and a failure message that names the selector kind, the locator
  and the observed count, as in \<open>expected 1 element matching css '#foo', found 0\<close>.
  \<open>find_all\<close> and \<open>satisfies\<close> are the capabilities of the scope: the lookup and the
  per-element predicates.
\<close>

record selector_spec =
  kind :: string
  locator :: string
  filters :: "(string \<times> pyval) list"
  exact_count :: "nat option"
  minimum_count :: "nat option"
  maximum_count :: "nat option"

record 'h result_set =
  elements :: "'h list"
  rs_spec :: selector_spec

definition matching ::
  "('w \<Rightarrow> string \<Rightarrow> string \<Rightarrow> 'h list) \<Rightarrow> ('w \<Rightarrow> string \<Rightarrow> pyval \<Rightarrow> 'h \<Rightarrow> bool) \<Rightarrow>
   selector_spec \<Rightarrow> 'w \<Rightarrow> 'h list" where
  "matching find_all satisfies S w =
     filter (\<lambda>h. list_all (\<lambda>(name, expected). satisfies w name expected h) (filters S))
       (find_all w (kind S) (locator S))"

definition resolve_for_spec ::
  "('w \<Rightarrow> string \<Rightarrow> string \<Rightarrow> 'h list) \<Rightarrow> ('w \<Rightarrow> string \<Rightarrow> pyval \<Rightarrow> 'h \<Rightarrow> bool) \<Rightarrow>
   selector_spec \<Rightarrow> ('w, 'h result_set) action" where
  "resolve_for_spec find_all satisfies S w =
     (Inr \<lparr>elements = matching find_all satisfies S w, rs_spec = S\<rparr>, w)"

definition length_spec :: "'h result_set \<Rightarrow> nat" where
  "length_spec r = length (elements r)"

text \<open>A natural number in decimal.\<close>

function show_nat :: "nat \<Rightarrow> string" where
  "show_nat n =
     (if n < 10 then [''0123456789'' ! n]
      else show_nat (n div 10) @ [''0123456789'' ! (n mod 10)])"
  by pat_completeness auto
termination
  by (relation "measure id") auto

declare show_nat.simps [simp del]

definition expected_count :: "selector_spec \<Rightarrow> nat" where
  "expected_count S =
     (case exact_count S of
        Some n \<Rightarrow> n
      | None \<Rightarrow> (case minimum_count S of Some n \<Rightarrow> n | None \<Rightarrow> 1))"

definition failure_message_spec :: "'h result_set \<Rightarrow> string" where
  "failure_message_spec r =
     ''expected '' @ show_nat (expected_count (rs_spec r)) @ '' element matching ''
       @ kind (rs_spec r) @ '' '' @ [CHR 0x27] @ locator (rs_spec r) @ [CHR 0x27]
       @ '', found '' @ show_nat (length (elements r))"

section \<open>Example scopes\<close>

text \<open>
  A page with one link, whose id is \<open>foo\<close> and whose text is \<open>ullamco\<close>, and a paragraph
  \<open>p#late\<close> that a script adds during the second pause. The world is the number of
  pauses taken so far.
\<close>

fun example_find_all :: "nat \<Rightarrow> string \<Rightarrow> string \<Rightarrow> nat list" where
  "example_find_all w k l =
     (if k = ''css'' \<and> l = ''a#foo'' then [0]
      else if k = ''link'' \<and> l = ''foo'' then [0]
      else if k = ''css'' \<and> l = ''p#late'' \<and> 2 \<le> w then [1]
      else [])"

fun example_satisfies :: "nat \<Rightarrow> string \<Rightarrow> pyval \<Rightarrow> nat \<Rightarrow> bool" where
  "example_satisfies w name expected h = (name = ''text'' \<and> expected = VStr ''ullamco'' \<and> h = 0)"

fun example_SelectorQuery :: "pyval list \<Rightarrow> kwargs \<Rightarrow> selector_spec outcome" where
  "example_SelectorQuery [VStr k, VStr l] kwargs =
     Inr \<lparr>kind = k, locator = l, filters = kwargs,
          exact_count = None, minimum_count = None, maximum_count = None\<rparr>"
| "example_SelectorQuery args kwargs = Inl (Exn TypeError ''malformed selector'')"

fun example_TextQuery :: "pyval list \<Rightarrow> kwargs \<Rightarrow> string outcome" where
  "example_TextQuery [VStr t] kwargs = Inr t"
| "example_TextQuery args kwargs = Inl (Exn TypeError ''malformed text'')"

definition example_node :: "nat \<Rightarrow> (nat, selector_spec, nat result_set, string) node" where
  "example_node n =
     \<lparr>SelectorQuery = example_SelectorQuery,
      selector_resolve_for = resolve_for_spec example_find_all example_satisfies,
      result_len = length_spec,
      result_failure_message = failure_message_spec,
      TextQuery = example_TextQuery,
      text_resolve_for = (\<lambda>t w. (Inr (VInt (if t = ''ullamco'' then 1 else 0)), w)),
      text_failure_message = (\<lambda>t w. ''expected to find text '' @ t),
      synchronize = synchronize_spec Suc n\<rparr>"

text \<open>
  A scope on which every resolution raises an exception of class \<open>c\<close>. Its world logs
  how many probes have run and how many pauses were taken.
\<close>

record probe_log =
  probes :: nat
  pauses :: nat

definition raising_node ::
  "exc_class \<Rightarrow> nat \<Rightarrow> (probe_log, selector_spec, nat result_set, string) node" where
  "raising_node c n =
     \<lparr>SelectorQuery = example_SelectorQuery,
      selector_resolve_for = (\<lambda>q w. (Inl (Exn c ''raised while resolving''), w\<lparr>probes := Suc (probes w)\<rparr>)),
      result_len = length_spec,
      result_failure_message = failure_message_spec,
      TextQuery = example_TextQuery,
      text_resolve_for = (\<lambda>t w. (Inl (Exn c ''raised while resolving''), w\<lparr>probes := Suc (probes w)\<rparr>)),
      text_failure_message = (\<lambda>t w. ''expected to find text '' @ t),
      synchronize = synchronize_spec (\<lambda>w. w\<lparr>pauses := Suc (pauses w)\<rparr>) n\<rparr>"

text \<open>
  A scope whose first lookup finds nothing and on which every later resolution raises an
  exception of class \<open>c\<close>: the subtree went away between two attempts.
\<close>

definition stale_node ::
  "exc_class \<Rightarrow> nat \<Rightarrow> (probe_log, selector_spec, nat result_set, string) node" where
  "stale_node c n =
     \<lparr>SelectorQuery = example_SelectorQuery,
      selector_resolve_for =
        (\<lambda>q w. if probes w = 0
               then (Inr \<lparr>elements = [], rs_spec = q\<rparr>, w\<lparr>probes := Suc (probes w)\<rparr>)
               else (Inl (Exn c ''raised while resolving''), w\<lparr>probes := Suc (probes w)\<rparr>)),
      result_len = length_spec,
      result_failure_message = failure_message_spec,
      TextQuery = example_TextQuery,
      text_resolve_for =
        (\<lambda>t w. if probes w = 0
               then (Inr (VBool False), w\<lparr>probes := Suc (probes w)\<rparr>)
               else (Inl (Exn c ''raised while resolving''), w\<lparr>probes := Suc (probes w)\<rparr>)),
      text_failure_message = (\<lambda>t w. ''expected to find text '' @ t),
      synchronize = synchronize_spec (\<lambda>w. w\<lparr>pauses := Suc (pauses w)\<rparr>) n\<rparr>"

section \<open>Properties of the exception hierarchy\<close>

lemma mro_Exception: "mro Exception = [Exception]"
  by (simp add: mro.simps)

lemma mro_TypeError: "mro TypeError = [TypeError, Exception]"
  by (simp add: mro.simps [of TypeError] mro_Exception)

lemma mro_CapybaraError: "mro CapybaraError = [CapybaraError, Exception]"
  by (simp add: mro.simps [of CapybaraError] mro_Exception)

lemma mro_ElementNotFound: "mro ElementNotFound = [ElementNotFound, CapybaraError, Exception]"
  by (simp add: mro.simps [of ElementNotFound] mro_CapybaraError)

lemma mro_ModalNotFound: "mro ModalNotFound = [ModalNotFound, CapybaraError, Exception]"
  by (simp add: mro.simps [of ModalNotFound] mro_CapybaraError)

lemma mro_Ambiguous:
  "mro Ambiguous = [Ambiguous, ElementNotFound, CapybaraError, Exception]"
  by (simp add: mro.simps [of Ambiguous] mro_ElementNotFound)

lemma mro_ExpectationNotMet:
  "mro ExpectationNotMet = [ExpectationNotMet, ElementNotFound, CapybaraError, Exception]"
  by (simp add: mro.simps [of ExpectationNotMet] mro_ElementNotFound)

lemma mro_FileNotFound: "mro FileNotFound = [FileNotFound, CapybaraError, Exception]"
  by (simp add: mro.simps [of FileNotFound] mro_CapybaraError)

lemma mro_UnselectNotAllowed:
  "mro UnselectNotAllowed = [UnselectNotAllowed, CapybaraError, Exception]"
  by (simp add: mro.simps [of UnselectNotAllowed] mro_CapybaraError)

lemma mro_ScopeError: "mro ScopeError = [ScopeError, CapybaraError, Exception]"
  by (simp add: mro.simps [of ScopeError] mro_CapybaraError)

lemma mro_WindowError: "mro WindowError = [WindowError, CapybaraError, Exception]"
  by (simp add: mro.simps [of WindowError] mro_CapybaraError)

lemmas mro_eqs =
  mro_Exception mro_TypeError mro_CapybaraError mro_ElementNotFound mro_ModalNotFound
  mro_Ambiguous mro_ExpectationNotMet mro_FileNotFound mro_UnselectNotAllowed
  mro_ScopeError mro_WindowError

lemma issubclass_ExpectationNotMet: "issubclass c ExpectationNotMet \<longleftrightarrow> c = ExpectationNotMet"
  by (cases c) (simp_all add: issubclass_def mro_eqs)

lemma issubclass_Ambiguous: "issubclass c Ambiguous \<longleftrightarrow> c = Ambiguous"
  by (cases c) (simp_all add: issubclass_def mro_eqs)

lemma issubclass_ElementNotFound:
  "issubclass c ElementNotFound \<longleftrightarrow> c = ElementNotFound \<or> c = Ambiguous \<or> c = ExpectationNotMet"
  by (cases c) (simp_all add: issubclass_def mro_eqs)

lemma issubclass_CapybaraError:
  "issubclass c CapybaraError \<longleftrightarrow> c \<noteq> Exception \<and> c \<noteq> TypeError"
  by (cases c) (simp_all add: issubclass_def mro_eqs)

lemma isinstance_ExpectationNotMet:
  "isinstance e ExpectationNotMet \<longleftrightarrow> exc_cls e = ExpectationNotMet"
  by (simp add: isinstance_def issubclass_ExpectationNotMet)

lemma isinstance_ElementNotFound:
  "isinstance e ElementNotFound \<longleftrightarrow>
     exc_cls e = ElementNotFound \<or> exc_cls e = Ambiguous \<or> exc_cls e = ExpectationNotMet"
  by (simp add: isinstance_def issubclass_ElementNotFound)

text \<open>
  C4. \<open>Ambiguous\<close> and \<open>ExpectationNotMet\<close> are specializations of \<open>ElementNotFound\<close>:
  every instance of either (of the class or of a class derived from it) is an instance
  of \<open>ElementNotFound\<close>, so a handler for \<open>ElementNotFound\<close> catches both. The two are
  distinct: they are different classes and neither derives from the other.
\<close>

theorem Ambiguous_ExpectationNotMet_specialize_ElementNotFound:
  "(\<forall>e. isinstance e Ambiguous \<longrightarrow> isinstance e ElementNotFound) \<and>
   (\<forall>e. isinstance e ExpectationNotMet \<longrightarrow> isinstance e ElementNotFound) \<and>
   base Ambiguous = Some ElementNotFound \<and>
   base ExpectationNotMet = Some ElementNotFound \<and>
   Ambiguous \<noteq> ExpectationNotMet \<and>
   \<not> issubclass Ambiguous ExpectationNotMet \<and>
   \<not> issubclass ExpectationNotMet Ambiguous \<and>
   (\<forall>m. \<not> isinstance (Exn Ambiguous m) ExpectationNotMet) \<and>
   (\<forall>m. \<not> isinstance (Exn ExpectationNotMet m) Ambiguous)"
  by (simp add: isinstance_def issubclass_Ambiguous issubclass_ExpectationNotMet
      issubclass_ElementNotFound)

theorem Ambiguous_ExpectationNotMet_specialize_ElementNotFound_witness:
  "isinstance (Exn Ambiguous ''two buttons'') Ambiguous \<and>
   isinstance (Exn Ambiguous ''two buttons'') ElementNotFound \<and>
   isinstance (Exn ExpectationNotMet ''none'') ExpectationNotMet \<and>
   isinstance (Exn ExpectationNotMet ''none'') ElementNotFound \<and>
   \<not> isinstance (Exn Ambiguous ''two buttons'') ExpectationNotMet \<and>
   \<not> isinstance (Exn ExpectationNotMet ''none'') Ambiguous"
  using Ambiguous_ExpectationNotMet_specialize_ElementNotFound
  by (simp add: isinstance_def issubclass_def mro_eqs)

section \<open>Properties of the synchronization engine\<close>

lemma synchronize_spec_last_attempt:
  "synchronize_spec pause n probe w = probe (last_attempt pause n probe w)"
proof (induction n arbitrary: w)
  case 0
  show ?case by simp
next
  case (Suc n)
  obtain r w' where p: "probe w = (r, w')" by (cases "probe w")
  show ?case
  proof (cases r)
    case (Inl e)
    with p Suc show ?thesis by simp
  next
    case (Inr v)
    with p show ?thesis by simp
  qed
qed

lemma synchronize_spec_first_success:
  "probe w = (Inr v, w') \<Longrightarrow> synchronize_spec pause n probe w = (Inr v, w')"
  by (cases n) simp_all

lemma synchronize_spec_first_other:
  "probe w = (Inl e, w') \<Longrightarrow> \<not> isinstance e ElementNotFound \<Longrightarrow>
   synchronize_spec pause n probe w = (Inl e, w')"
  by (cases n) simp_all

lemma synchronize_spec_all_unsatisfied:
  "(\<And>k. k \<le> n \<Longrightarrow> \<exists>e. probe ((pause ^^ k) w) = (Inl e, (pause ^^ k) w) \<and>
      isinstance e ElementNotFound) \<Longrightarrow>
   synchronize_spec pause n probe w = probe ((pause ^^ n) w)"
proof (induction n arbitrary: w)
  case 0
  show ?case by simp
next
  case (Suc n)
  from Suc.prems [of 0] obtain e where
    e: "probe w = (Inl e, w)" "isinstance e ElementNotFound" by auto
  have step: "\<exists>e. probe ((pause ^^ k) (pause w)) = (Inl e, (pause ^^ k) (pause w)) \<and>
      isinstance e ElementNotFound" if "k \<le> n" for k
    using Suc.prems [of "Suc k"] that by (simp add: funpow_swap1)
  have "synchronize_spec pause n probe (pause w) = probe ((pause ^^ n) (pause w))"
    by (rule Suc.IH) (rule step)
  with e show ?case by (simp add: funpow_swap1)
qed

section \<open>Properties of the matchers\<close>

lemma has_selector_cases:
  "has_selector self args kwargs w =
     (case assert_selector self args kwargs w of
        (Inr v, w') \<Rightarrow> (Inr (VBool True), w')
      | (Inl e, w') \<Rightarrow>
          if exc_cls e = ExpectationNotMet then (Inr (VBool False), w') else (Inl e, w'))"
  by (simp add: has_selector_def isinstance_ExpectationNotMet split: prod.splits sum.splits)

lemma has_text_cases:
  "has_text self args kwargs w =
     (case assert_text self args kwargs w of
        (Inr v, w') \<Rightarrow> (Inr v, w')
      | (Inl e, w') \<Rightarrow>
          if exc_cls e = ExpectationNotMet then (Inr (VBool False), w') else (Inl e, w'))"
  by (simp add: has_text_def isinstance_ExpectationNotMet split: prod.splits sum.splits)

lemma assert_selector_spec_sync:
  assumes "SelectorQuery self args kwargs = Inr query"
    and "synchronize self = synchronize_spec pause n"
  shows "assert_selector self args kwargs w =
     assert_selector_probe self query
       (last_attempt pause n (assert_selector_probe self query) w)"
  using assms by (simp add: assert_selector_def synchronize_spec_last_attempt)

lemma assert_text_spec_sync:
  assumes "TextQuery self args kwargs = Inr query"
    and "synchronize self = synchronize_spec pause n"
  shows "assert_text self args kwargs w =
     assert_text_probe self query
       (last_attempt pause n (assert_text_probe self query) w)"
  using assms by (simp add: assert_text_def synchronize_spec_last_attempt)

text \<open>
  C1. For every scope, argument list and keyword arguments: \<open>has_selector\<close> returns
  \<open>False\<close> exactly when the \<open>assert_selector\<close> call raises an \<open>ExpectationNotMet\<close>,
  returns \<open>True\<close> exactly when that call returns normally, and raises whatever else the
  call raises, unchanged (an \<open>Ambiguous\<close> and a bare \<open>ElementNotFound\<close> included);
  \<open>ExpectationNotMet\<close> is the only class it turns into a boolean.
\<close>

theorem has_selector_converts_only_ExpectationNotMet:
  "has_selector self args kwargs w =
     (case assert_selector self args kwargs w of
        (Inr v, w') \<Rightarrow> (Inr (VBool True), w')
      | (Inl e, w') \<Rightarrow>
          if exc_cls e = ExpectationNotMet then (Inr (VBool False), w') else (Inl e, w')) \<and>
   (has_selector self args kwargs w = (Inr (VBool False), w1) \<longleftrightarrow>
      (\<exists>m. assert_selector self args kwargs w = (Inl (Exn ExpectationNotMet m), w1))) \<and>
   (has_selector self args kwargs w = (Inr (VBool True), w1) \<longleftrightarrow>
      (\<exists>v. assert_selector self args kwargs w = (Inr v, w1))) \<and>
   (has_selector self args kwargs w = (Inl e1, w1) \<longleftrightarrow>
      assert_selector self args kwargs w = (Inl e1, w1) \<and> exc_cls e1 \<noteq> ExpectationNotMet) \<and>
   (assert_selector self args kwargs w = (Inl (Exn Ambiguous m1), w1) \<longrightarrow>
      has_selector self args kwargs w = (Inl (Exn Ambiguous m1), w1)) \<and>
   (assert_selector self args kwargs w = (Inl (Exn ElementNotFound m1), w1) \<longrightarrow>
      has_selector self args kwargs w = (Inl (Exn ElementNotFound m1), w1))"
proof -
  obtain r w' where a: "assert_selector self args kwargs w = (r, w')"
    by (cases "assert_selector self args kwargs w")
  show ?thesis
  proof (cases r)
    case (Inl e)
    obtain c m where e: "e = Exn c m" by (cases e)
    from a Inl e show ?thesis
      by (auto simp: has_selector_cases)
  next
    case (Inr v)
    with a show ?thesis
      by (auto simp: has_selector_cases)
  qed
qed

theorem has_selector_converts_only_ExpectationNotMet_witness:
  "assert_selector (raising_node Ambiguous 1) [VStr ''css'', VStr ''p''] []
       \<lparr>probes = 0, pauses = 0\<rparr> =
     (Inl (Exn Ambiguous ''raised while resolving''), \<lparr>probes = 2, pauses = 1\<rparr>) \<and>
   has_selector (raising_node Ambiguous 1) [VStr ''css'', VStr ''p''] []
       \<lparr>probes = 0, pauses = 0\<rparr> =
     (Inl (Exn Ambiguous ''raised while resolving''), \<lparr>probes = 2, pauses = 1\<rparr>)"
proof -
  have a: "assert_selector (raising_node Ambiguous 1) [VStr ''css'', VStr ''p''] []
       \<lparr>probes = 0, pauses = 0\<rparr> =
     (Inl (Exn Ambiguous ''raised while resolving''), \<lparr>probes = 2, pauses = 1\<rparr>)"
    by (simp add: assert_selector_def raising_node_def assert_selector_probe_def
        isinstance_def issubclass_def mro_eqs)
  with has_selector_converts_only_ExpectationNotMet
    [of "raising_node Ambiguous 1" "[VStr ''css'', VStr ''p'']" "[]"
      "\<lparr>probes = 0, pauses = 0\<rparr>" "\<lparr>probes = 2, pauses = 1\<rparr>" _
      "''raised while resolving''"]
  show ?thesis by blast
qed

text \<open>
  C2. \<open>assert_selector\<close> builds a \<open>SelectorQuery\<close> from its arguments and calls the
  probe through the synchronization wrapper; the probe resolves the query for the
  current node. With the engine of the spec, the outcome is that of the deciding
  attempt: when that attempt resolves to a result set, \<open>assert_selector\<close> raises
  \<open>ExpectationNotMet\<close> with exactly the result set's failure message if the set has
  length zero, and returns \<open>True\<close> otherwise; an exception raised by the resolution itself
  is passed on.
\<close>

theorem assert_selector_raises_iff_empty:
  assumes "SelectorQuery self args kwargs = Inr query"
    and "synchronize self = synchronize_spec pause n"
  shows "assert_selector self args kwargs w =
           synchronize self (assert_selector_probe self query) w \<and>
         assert_selector self args kwargs w =
           (case selector_resolve_for self query
                   (last_attempt pause n (assert_selector_probe self query) w) of
              (Inl e, w') \<Rightarrow> (Inl e, w')
            | (Inr result, w') \<Rightarrow>
                if result_len self result = 0
                then (Inl (Exn ExpectationNotMet (result_failure_message self result)), w')
                else (Inr (VBool True), w')) \<and>
         (selector_resolve_for self query
              (last_attempt pause n (assert_selector_probe self query) w) = (Inr result, w1) \<longrightarrow>
            (assert_selector self args kwargs w =
               (Inl (Exn ExpectationNotMet (result_failure_message self result)), w1)
               \<longleftrightarrow> result_len self result = 0) \<and>
            (assert_selector self args kwargs w = (Inr (VBool True), w1)
               \<longleftrightarrow> result_len self result \<noteq> 0) \<and>
            ((\<exists>e. assert_selector self args kwargs w = (Inl e, w1))
               \<longleftrightarrow> result_len self result = 0))"
proof -
  let ?w0 = "last_attempt pause n (assert_selector_probe self query) w"
  have s: "assert_selector self args kwargs w = assert_selector_probe self query ?w0"
    using assms by (rule assert_selector_spec_sync)
  have 1: "assert_selector self args kwargs w =
      synchronize self (assert_selector_probe self query) w"
    using assms(1) by (simp add: assert_selector_def)
  have 2: "assert_selector self args kwargs w =
      (case selector_resolve_for self query ?w0 of
         (Inl e, w') \<Rightarrow> (Inl e, w')
       | (Inr result, w') \<Rightarrow>
           if result_len self result = 0
           then (Inl (Exn ExpectationNotMet (result_failure_message self result)), w')
           else (Inr (VBool True), w'))"
    unfolding s by (simp add: assert_selector_probe_def)
  have 3: "selector_resolve_for self query ?w0 = (Inr result, w1) \<longrightarrow>
      (assert_selector self args kwargs w =
         (Inl (Exn ExpectationNotMet (result_failure_message self result)), w1)
         \<longleftrightarrow> result_len self result = 0) \<and>
      (assert_selector self args kwargs w = (Inr (VBool True), w1)
         \<longleftrightarrow> result_len self result \<noteq> 0) \<and>
      ((\<exists>e. assert_selector self args kwargs w = (Inl e, w1))
         \<longleftrightarrow> result_len self result = 0)"
    unfolding 2 by auto
  from 1 2 3 show ?thesis by blast
qed

theorem assert_selector_raises_iff_empty_witness:
  "SelectorQuery (example_node 3) [VStr ''css'', VStr ''p#late''] [] =
     Inr \<lparr>kind = ''css'', locator = ''p#late'', filters = [],
          exact_count = None, minimum_count = None, maximum_count = None\<rparr> \<and>
   synchronize (example_node 3) = synchronize_spec Suc 3 \<and>
   assert_selector (example_node 3) [VStr ''css'', VStr ''p#late''] [] 0 =
     (Inr (VBool True), 2) \<and>
   SelectorQuery (example_node (Suc 0)) [VStr ''css'', VStr ''p#late''] [] =
     Inr \<lparr>kind = ''css'', locator = ''p#late'', filters = [],
          exact_count = None, minimum_count = None, maximum_count = None\<rparr> \<and>
   synchronize (example_node (Suc 0)) = synchronize_spec Suc (Suc 0) \<and>
   assert_selector (example_node (Suc 0)) [VStr ''css'', VStr ''p#late''] [] 0 =
     (Inl (Exn ExpectationNotMet
        (''expected 1 element matching css '' @ [CHR 0x27] @ ''p#late'' @ [CHR 0x27]
           @ '', found 0'')), Suc 0)"
proof -
  let ?S = "\<lparr>kind = ''css'', locator = ''p#late'', filters = [],
          exact_count = None, minimum_count = None, maximum_count = None\<rparr>"
  have q3: "SelectorQuery (example_node 3) [VStr ''css'', VStr ''p#late''] [] = Inr ?S"
    by (simp add: example_node_def)
  have s3: "synchronize (example_node 3) = synchronize_spec Suc 3"
    by (simp add: example_node_def)
  have q1: "SelectorQuery (example_node (Suc 0)) [VStr ''css'', VStr ''p#late''] [] = Inr ?S"
    by (simp add: example_node_def)
  have s1: "synchronize (example_node (Suc 0)) = synchronize_spec Suc (Suc 0)"
    by (simp add: example_node_def)
  have p: "assert_selector_probe (example_node n) ?S w =
      (if 2 \<le> w then (Inr (VBool True), w)
       else (Inl (Exn ExpectationNotMet
          (''expected 1 element matching css '' @ [CHR 0x27] @ ''p#late'' @ [CHR 0x27]
             @ '', found 0'')), w))" for n w
    by (simp add: assert_selector_probe_def example_node_def resolve_for_spec_def
        matching_def length_spec_def failure_message_spec_def expected_count_def
        show_nat.simps)
  have e: "isinstance (Exn ExpectationNotMet m) ElementNotFound" for m
    by (simp add: isinstance_ElementNotFound)
  have l3: "last_attempt Suc 3 (assert_selector_probe (example_node 3) ?S) 0 = 2"
    by (simp add: eval_nat_numeral p e)
  have l1: "last_attempt Suc (Suc 0) (assert_selector_probe (example_node (Suc 0)) ?S) 0 = Suc 0"
    by (simp add: p e)
  have r: "selector_resolve_for (example_node n) ?S w =
      (Inr \<lparr>elements = (if 2 \<le> w then [1] else []), rs_spec = ?S\<rparr>, w)" for n w
    by (simp add: example_node_def resolve_for_spec_def matching_def)
  have m: "result_len (example_node n) = length_spec"
    "result_failure_message (example_node n) = failure_message_spec" for n
    by (simp_all add: example_node_def)
  have c3: "assert_selector (example_node 3) [VStr ''css'', VStr ''p#late''] [] 0 =
      (case selector_resolve_for (example_node 3) ?S
              (last_attempt Suc 3 (assert_selector_probe (example_node 3) ?S) 0) of
         (Inl e, w') \<Rightarrow> (Inl e, w')
       | (Inr result, w') \<Rightarrow>
           if result_len (example_node 3) result = 0
           then (Inl (Exn ExpectationNotMet (result_failure_message (example_node 3) result)), w')
           else (Inr (VBool True), w'))"
    using assert_selector_raises_iff_empty [OF q3 s3, of 0] by blast
  have a3: "assert_selector (example_node 3) [VStr ''css'', VStr ''p#late''] [] 0 =
      (Inr (VBool True), 2)"
    unfolding c3 l3 r by (simp add: m length_spec_def)
  have c1: "assert_selector (example_node (Suc 0)) [VStr ''css'', VStr ''p#late''] [] 0 =
      (case selector_resolve_for (example_node (Suc 0)) ?S
              (last_attempt Suc (Suc 0) (assert_selector_probe (example_node (Suc 0)) ?S) 0) of
         (Inl e, w') \<Rightarrow> (Inl e, w')
       | (Inr result, w') \<Rightarrow>
           if result_len (example_node (Suc 0)) result = 0
           then (Inl (Exn ExpectationNotMet (result_failure_message (example_node (Suc 0)) result)), w')
           else (Inr (VBool True), w'))"
    using assert_selector_raises_iff_empty [OF q1 s1, of 0] by blast
  have a1: "assert_selector (example_node (Suc 0)) [VStr ''css'', VStr ''p#late''] [] 0 =
     (Inl (Exn ExpectationNotMet
        (''expected 1 element matching css '' @ [CHR 0x27] @ ''p#late'' @ [CHR 0x27]
           @ '', found 0'')), Suc 0)"
    unfolding c1 l1 r
    by (simp add: m length_spec_def failure_message_spec_def expected_count_def
        show_nat.simps)
  from q3 s3 a3 q1 s1 a1 show ?thesis by blast
qed

text \<open>
  C3. \<open>assert_text\<close> and \<open>has_text\<close> follow the pattern of the selector forms with a
  \<open>TextQuery\<close>: \<open>assert_text\<close> builds the query and calls the probe through the
  synchronization wrapper; with the engine of the spec, when the deciding attempt
  resolves to a match state, \<open>assert_text\<close> raises \<open>ExpectationNotMet\<close> with the query's
  failure message if the state is falsy and returns \<open>True\<close> if it is truthy. \<open>has_text\<close>
  turns an \<open>ExpectationNotMet\<close> raised by \<open>assert_text\<close> into \<open>False\<close>, and no other
  exception; every other exception is raised unchanged.
\<close>

theorem assert_text_has_text_pattern:
  "has_text self args kwargs w =
     (case assert_text self args kwargs w of
        (Inr v, w') \<Rightarrow> (Inr v, w')
      | (Inl e, w') \<Rightarrow>
          if exc_cls e = ExpectationNotMet then (Inr (VBool False), w') else (Inl e, w')) \<and>
   (TextQuery self args kwargs = Inr query \<longrightarrow>
      assert_text self args kwargs w = synchronize self (assert_text_probe self query) w) \<and>
   (TextQuery self args kwargs = Inr query \<and> synchronize self = synchronize_spec pause n \<longrightarrow>
      assert_text self args kwargs w =
        (case text_resolve_for self query
                (last_attempt pause n (assert_text_probe self query) w) of
           (Inl e, w') \<Rightarrow> (Inl e, w')
         | (Inr matches, w') \<Rightarrow>
             if truthy matches then (Inr (VBool True), w')
             else (Inl (Exn ExpectationNotMet (text_failure_message self query w')), w')) \<and>
      has_text self args kwargs w =
        (case text_resolve_for self query
                (last_attempt pause n (assert_text_probe self query) w) of
           (Inl e, w') \<Rightarrow>
             if exc_cls e = ExpectationNotMet then (Inr (VBool False), w') else (Inl e, w')
         | (Inr matches, w') \<Rightarrow> (Inr (VBool (truthy matches)), w')))"
proof -
  have 1: "has_text self args kwargs w =
     (case assert_text self args kwargs w of
        (Inr v, w') \<Rightarrow> (Inr v, w')
      | (Inl e, w') \<Rightarrow>
          if exc_cls e = ExpectationNotMet then (Inr (VBool False), w') else (Inl e, w'))"
    by (rule has_text_cases)
  have 2: "assert_text self args kwargs w = synchronize self (assert_text_probe self query) w"
    if "TextQuery self args kwargs = Inr query"
    using that by (simp add: assert_text_def)
  have 3: "assert_text self args kwargs w =
        (case text_resolve_for self query
                (last_attempt pause n (assert_text_probe self query) w) of
           (Inl e, w') \<Rightarrow> (Inl e, w')
         | (Inr matches, w') \<Rightarrow>
             if truthy matches then (Inr (VBool True), w')
             else (Inl (Exn ExpectationNotMet (text_failure_message self query w')), w'))"
    if "TextQuery self args kwargs = Inr query" "synchronize self = synchronize_spec pause n"
    unfolding assert_text_spec_sync [OF that]
    by (simp add: assert_text_probe_def split: prod.splits sum.splits)
  have 4: "has_text self args kwargs w =
        (case text_resolve_for self query
                (last_attempt pause n (assert_text_probe self query) w) of
           (Inl e, w') \<Rightarrow>
             if exc_cls e = ExpectationNotMet then (Inr (VBool False), w') else (Inl e, w')
         | (Inr matches, w') \<Rightarrow> (Inr (VBool (truthy matches)), w'))"
    if "TextQuery self args kwargs = Inr query" "synchronize self = synchronize_spec pause n"
    unfolding 1 3 [OF that]
    by (simp split: prod.splits sum.splits)
  from 1 2 3 4 show ?thesis by blast
qed

theorem assert_text_has_text_pattern_witness:
  "TextQuery (example_node 0) [VStr ''lorem''] [] = Inr ''lorem'' \<and>
   synchronize (example_node 0) = synchronize_spec Suc 0 \<and>
   assert_text (example_node 0) [VStr ''lorem''] [] 0 =
     (Inl (Exn ExpectationNotMet ''expected to find text lorem''), 0) \<and>
   has_text (example_node 0) [VStr ''lorem''] [] 0 = (Inr (VBool False), 0) \<and>
   TextQuery (example_node 0) [VStr ''ullamco''] [] = Inr ''ullamco'' \<and>
   assert_text (example_node 0) [VStr ''ullamco''] [] 0 = (Inr (VBool True), 0) \<and>
   has_text (example_node 0) [VStr ''ullamco''] [] 0 = (Inr (VBool True), 0)"
proof -
  have s: "synchronize (example_node 0) = synchronize_spec Suc 0"
    by (simp add: example_node_def)
  have q1: "TextQuery (example_node 0) [VStr ''lorem''] [] = Inr ''lorem''"
    by (simp add: example_node_def)
  have q2: "TextQuery (example_node 0) [VStr ''ullamco''] [] = Inr ''ullamco''"
    by (simp add: example_node_def)
  have r: "text_resolve_for (example_node 0) t w =
      (Inr (VInt (if t = ''ullamco'' then 1 else 0)), w)" for t w
    by (simp add: example_node_def)
  have f: "text_failure_message (example_node 0) t w = ''expected to find text '' @ t" for t w
    by (simp add: example_node_def)
  have l: "last_attempt Suc 0 probe (0::nat) = 0" for probe :: "(nat, pyval) action"
    by simp
  have c1: "assert_text (example_node 0) [VStr ''lorem''] [] 0 =
        (case text_resolve_for (example_node 0) ''lorem''
                (last_attempt Suc 0 (assert_text_probe (example_node 0) ''lorem'') 0) of
           (Inl e, w') \<Rightarrow> (Inl e, w')
         | (Inr matches, w') \<Rightarrow>
             if truthy matches then (Inr (VBool True), w')
             else (Inl (Exn ExpectationNotMet
                    (text_failure_message (example_node 0) ''lorem'' w')), w'))"
    and d1: "has_text (example_node 0) [VStr ''lorem''] [] 0 =
        (case text_resolve_for (example_node 0) ''lorem''
                (last_attempt Suc 0 (assert_text_probe (example_node 0) ''lorem'') 0) of
           (Inl e, w') \<Rightarrow>
             if exc_cls e = ExpectationNotMet then (Inr (VBool False), w') else (Inl e, w')
         | (Inr matches, w') \<Rightarrow> (Inr (VBool (truthy matches)), w'))"
    using assert_text_has_text_pattern
      [of "example_node 0" "[VStr ''lorem'']" "[]" 0 "''lorem''" Suc 0] q1 s
    by blast+
  have a1: "assert_text (example_node 0) [VStr ''lorem''] [] 0 =
       (Inl (Exn ExpectationNotMet ''expected to find text lorem''), 0) \<and>
     has_text (example_node 0) [VStr ''lorem''] [] 0 = (Inr (VBool False), 0)"
    unfolding c1 d1 l r by (simp add: f)
  have c2: "assert_text (example_node 0) [VStr ''ullamco''] [] 0 =
        (case text_resolve_for (example_node 0) ''ullamco''
                (last_attempt Suc 0 (assert_text_probe (example_node 0) ''ullamco'') 0) of
           (Inl e, w') \<Rightarrow> (Inl e, w')
         | (Inr matches, w') \<Rightarrow>
             if truthy matches then (Inr (VBool True), w')
             else (Inl (Exn ExpectationNotMet
                    (text_failure_message (example_node 0) ''ullamco'' w')), w'))"
    and d2: "has_text (example_node 0) [VStr ''ullamco''] [] 0 =
        (case text_resolve_for (example_node 0) ''ullamco''
                (last_attempt Suc 0 (assert_text_probe (example_node 0) ''ullamco'') 0) of
           (Inl e, w') \<Rightarrow>
             if exc_cls e = ExpectationNotMet then (Inr (VBool False), w') else (Inl e, w')
         | (Inr matches, w') \<Rightarrow> (Inr (VBool (truthy matches)), w'))"
    using assert_text_has_text_pattern
      [of "example_node 0" "[VStr ''ullamco'']" "[]" 0 "''ullamco''" Suc 0] q2 s
    by blast+
  have a2: "assert_text (example_node 0) [VStr ''ullamco''] [] 0 = (Inr (VBool True), 0) \<and>
     has_text (example_node 0) [VStr ''ullamco''] [] 0 = (Inr (VBool True), 0)"
    unfolding c2 d2 l r by (simp add: f)
  from s q1 q2 a1 a2 show ?thesis by blast
qed

text \<open>
  C5, as the code has it. For every expression and all keyword arguments without the key
  \<open>path\<close>, \<open>has_css(path, **kwargs)\<close> has the outcome of
  \<open>has_selector("css", path, **kwargs)\<close>, and for all keyword arguments without the key
  \<open>query\<close>, \<open>has_xpath(query, **kwargs)\<close> has that of
  \<open>has_selector("xpath", query, **kwargs)\<close>: the same value or the same raised exception,
  and the same effect on the world. With that key the call raises the \<open>TypeError\<close> of
  the binding and leaves the world as it was.
\<close>

theorem has_css_has_xpath_delegate:
  "(''path'' \<notin> set (map fst kwargs) \<longrightarrow>
      has_css self path kwargs w = has_selector self [VStr ''css'', path] kwargs w) \<and>
   (''query'' \<notin> set (map fst kwargs) \<longrightarrow>
      has_xpath self query kwargs w = has_selector self [VStr ''xpath'', query] kwargs w) \<and>
   (''path'' \<in> set (map fst kwargs) \<longrightarrow>
      has_css self path kwargs w = (Inl (multiple_values ''has_css'' ''path''), w)) \<and>
   (''query'' \<in> set (map fst kwargs) \<longrightarrow>
      has_xpath self query kwargs w = (Inl (multiple_values ''has_xpath'' ''query''), w))"
  by (simp add: has_css_def has_xpath_def)

theorem has_css_has_xpath_delegate_witness:
  "''path'' \<notin> set (map fst [(''text'', VStr ''ullamco'')]) \<and>
   has_css (example_node 0) (VStr ''a#foo'') [(''text'', VStr ''ullamco'')] 0 =
     has_selector (example_node 0) [VStr ''css'', VStr ''a#foo''] [(''text'', VStr ''ullamco'')] 0 \<and>
   has_css (example_node 0) (VStr ''a#foo'') [(''text'', VStr ''ullamco'')] 0 =
     (Inr (VBool True), 0) \<and>
   ''query'' \<notin> set (map fst [(''text'', VStr ''ullamco'')]) \<and>
   has_xpath (example_node 0) (VStr ''//h1'') [(''text'', VStr ''ullamco'')] 0 =
     has_selector (example_node 0) [VStr ''xpath'', VStr ''//h1''] [(''text'', VStr ''ullamco'')] 0 \<and>
   has_xpath (example_node 0) (VStr ''//h1'') [(''text'', VStr ''ullamco'')] 0 =
     (Inr (VBool False), 0)"
proof -
  let ?kw = "[(''text'', VStr ''ullamco'')]"
  have p: "''path'' \<notin> set (map fst ?kw)" and q: "''query'' \<notin> set (map fst ?kw)"
    by simp_all
  have e: "isinstance (Exn ExpectationNotMet m) ExpectationNotMet" for m
    by (simp add: isinstance_ExpectationNotMet)
  have s1: "has_selector (example_node 0) [VStr ''css'', VStr ''a#foo''] ?kw 0 =
      (Inr (VBool True), 0)"
    by (simp add: has_selector_def assert_selector_def assert_selector_probe_def
        example_node_def resolve_for_spec_def matching_def length_spec_def)
  have s2: "has_selector (example_node 0) [VStr ''xpath'', VStr ''//h1''] ?kw 0 =
      (Inr (VBool False), 0)"
    by (simp add: has_selector_def assert_selector_def assert_selector_probe_def
        example_node_def resolve_for_spec_def matching_def length_spec_def e)
  from has_css_has_xpath_delegate
    [where kwargs = ?kw and self = "example_node 0" and path = "VStr ''a#foo''"
      and query = "VStr ''//h1''" and w = 0] p q
  have c: "has_css (example_node 0) (VStr ''a#foo'') ?kw 0 =
      has_selector (example_node 0) [VStr ''css'', VStr ''a#foo''] ?kw 0"
    and x: "has_xpath (example_node 0) (VStr ''//h1'') ?kw 0 =
      has_selector (example_node 0) [VStr ''xpath'', VStr ''//h1''] ?kw 0"
    by blast+
  from p q c x s1 s2 show ?thesis by simp
qed

text \<open>
  C5, as stated, fails for keyword arguments with the key \<open>path\<close> (or \<open>query\<close>):
  \<open>has_css("a#foo", path="h1")\<close> raises a \<open>TypeError\<close>, where
  \<open>has_selector("css", "a#foo", path="h1")\<close> takes \<open>path\<close> as one more keyword of the
  query and returns a boolean.
\<close>

theorem has_css_keyword_path_differs:
  "has_css (example_node 0) (VStr ''a#foo'') [(''path'', VStr ''h1'')] 0 =
     (Inl (Exn TypeError
        (''has_css() got multiple values for argument '' @ [CHR 0x27] @ ''path'' @ [CHR 0x27])), 0) \<and>
   has_selector (example_node 0) [VStr ''css'', VStr ''a#foo''] [(''path'', VStr ''h1'')] 0 =
     (Inr (VBool False), 0) \<and>
   has_css (example_node 0) (VStr ''a#foo'') [(''path'', VStr ''h1'')] 0 \<noteq>
     has_selector (example_node 0) [VStr ''css'', VStr ''a#foo''] [(''path'', VStr ''h1'')] 0 \<and>
   has_xpath (example_node 0) (VStr ''//h1'') [(''query'', VStr ''//a'')] 0 =
     (Inl (Exn TypeError
        (''has_xpath() got multiple values for argument '' @ [CHR 0x27] @ ''query'' @ [CHR 0x27])), 0) \<and>
   has_selector (example_node 0) [VStr ''xpath'', VStr ''//h1''] [(''query'', VStr ''//a'')] 0 =
     (Inr (VBool False), 0) \<and>
   has_xpath (example_node 0) (VStr ''//h1'') [(''query'', VStr ''//a'')] 0 \<noteq>
     has_selector (example_node 0) [VStr ''xpath'', VStr ''//h1''] [(''query'', VStr ''//a'')] 0"
proof -
  have e: "isinstance (Exn ExpectationNotMet m) ExpectationNotMet" for m
    by (simp add: isinstance_ExpectationNotMet)
  have c: "has_css (example_node 0) (VStr ''a#foo'') [(''path'', VStr ''h1'')] 0 =
     (Inl (Exn TypeError
        (''has_css() got multiple values for argument '' @ [CHR 0x27] @ ''path'' @ [CHR 0x27])), 0)"
    by (simp add: has_css_def multiple_values_def)
  have x: "has_xpath (example_node 0) (VStr ''//h1'') [(''query'', VStr ''//a'')] 0 =
     (Inl (Exn TypeError
        (''has_xpath() got multiple values for argument '' @ [CHR 0x27] @ ''query'' @ [CHR 0x27])), 0)"
    by (simp add: has_xpath_def multiple_values_def)
  have s1: "has_selector (example_node 0) [VStr ''css'', VStr ''a#foo''] [(''path'', VStr ''h1'')] 0 =
     (Inr (VBool False), 0)"
    by (simp add: has_selector_def assert_selector_def assert_selector_probe_def
        example_node_def resolve_for_spec_def matching_def length_spec_def e)
  have s2: "has_selector (example_node 0) [VStr ''xpath'', VStr ''//h1''] [(''query'', VStr ''//a'')] 0 =
     (Inr (VBool False), 0)"
    by (simp add: has_selector_def assert_selector_def assert_selector_probe_def
        example_node_def resolve_for_spec_def matching_def length_spec_def e)
  show ?thesis unfolding c x s1 s2 by simp
qed

text \<open>
  C6, as the code has it. For every locator and all keyword arguments without the key
  \<open>locator\<close>, \<open>has_button(locator, **kwargs)\<close> is
  \<open>has_selector("button", locator, **kwargs)\<close> and \<open>has_link(locator, **kwargs)\<close> is
  \<open>has_selector("link", locator, **kwargs)\<close>: they add nothing beyond the selector kind.
  With that key the call raises the \<open>TypeError\<close> of the binding and leaves the world as
  it was.
\<close>

theorem has_button_has_link_delegate:
  "(''locator'' \<notin> set (map fst kwargs) \<longrightarrow>
      has_button self loc kwargs w = has_selector self [VStr ''button'', loc] kwargs w \<and>
      has_link self loc kwargs w = has_selector self [VStr ''link'', loc] kwargs w) \<and>
   (''locator'' \<in> set (map fst kwargs) \<longrightarrow>
      has_button self loc kwargs w = (Inl (multiple_values ''has_button'' ''locator''), w) \<and>
      has_link self loc kwargs w = (Inl (multiple_values ''has_link'' ''locator''), w))"
  by (simp add: has_button_def has_link_def)

theorem has_button_has_link_delegate_witness:
  "''locator'' \<notin> set (map fst [(''text'', VStr ''ullamco'')]) \<and>
   has_link (example_node 0) (VStr ''foo'') [(''text'', VStr ''ullamco'')] 0 =
     has_selector (example_node 0) [VStr ''link'', VStr ''foo''] [(''text'', VStr ''ullamco'')] 0 \<and>
   has_link (example_node 0) (VStr ''foo'') [(''text'', VStr ''ullamco'')] 0 =
     (Inr (VBool True), 0) \<and>
   has_button (example_node 0) (VStr ''med'') [(''text'', VStr ''ullamco'')] 0 =
     has_selector (example_node 0) [VStr ''button'', VStr ''med''] [(''text'', VStr ''ullamco'')] 0 \<and>
   has_button (example_node 0) (VStr ''med'') [(''text'', VStr ''ullamco'')] 0 =
     (Inr (VBool False), 0)"
proof -
  let ?kw = "[(''text'', VStr ''ullamco'')]"
  have p: "''locator'' \<notin> set (map fst ?kw)"
    by simp
  have e: "isinstance (Exn ExpectationNotMet m) ExpectationNotMet" for m
    by (simp add: isinstance_ExpectationNotMet)
  have s1: "has_selector (example_node 0) [VStr ''link'', VStr ''foo''] ?kw 0 =
      (Inr (VBool True), 0)"
    by (simp add: has_selector_def assert_selector_def assert_selector_probe_def
        example_node_def resolve_for_spec_def matching_def length_spec_def)
  have s2: "has_selector (example_node 0) [VStr ''button'', VStr ''med''] ?kw 0 =
      (Inr (VBool False), 0)"
    by (simp add: has_selector_def assert_selector_def assert_selector_probe_def
        example_node_def resolve_for_spec_def matching_def length_spec_def e)
  from has_button_has_link_delegate
    [where kwargs = ?kw and self = "example_node 0" and loc = "VStr ''foo''" and w = 0] p
  have l: "has_link (example_node 0) (VStr ''foo'') ?kw 0 =
      has_selector (example_node 0) [VStr ''link'', VStr ''foo''] ?kw 0"
    by blast
  from has_button_has_link_delegate
    [where kwargs = ?kw and self = "example_node 0" and loc = "VStr ''med''" and w = 0] p
  have b: "has_button (example_node 0) (VStr ''med'') ?kw 0 =
      has_selector (example_node 0) [VStr ''button'', VStr ''med''] ?kw 0"
    by blast
  from p l b s1 s2 show ?thesis by simp
qed

text \<open>
  C6, as stated, fails for keyword arguments with the key \<open>locator\<close>:
  \<open>has_link("foo", locator="bar")\<close> and \<open>has_button("med", locator="bar")\<close> raise a
  \<open>TypeError\<close>, where \<open>has_selector("link", "foo", locator="bar")\<close> and
  \<open>has_selector("button", "med", locator="bar")\<close> take \<open>locator\<close> as one more keyword of
  the query and return a boolean.
\<close>

theorem has_button_keyword_locator_differs:
  "has_link (example_node 0) (VStr ''foo'') [(''locator'', VStr ''bar'')] 0 =
     (Inl (Exn TypeError
        (''has_link() got multiple values for argument '' @ [CHR 0x27] @ ''locator''
           @ [CHR 0x27])), 0) \<and>
   has_selector (example_node 0) [VStr ''link'', VStr ''foo''] [(''locator'', VStr ''bar'')] 0 =
     (Inr (VBool False), 0) \<and>
   has_link (example_node 0) (VStr ''foo'') [(''locator'', VStr ''bar'')] 0 \<noteq>
     has_selector (example_node 0) [VStr ''link'', VStr ''foo''] [(''locator'', VStr ''bar'')] 0 \<and>
   has_button (example_node 0) (VStr ''med'') [(''locator'', VStr ''bar'')] 0 =
     (Inl (Exn TypeError
        (''has_button() got multiple values for argument '' @ [CHR 0x27] @ ''locator''
           @ [CHR 0x27])), 0) \<and>
   has_selector (example_node 0) [VStr ''button'', VStr ''med''] [(''locator'', VStr ''bar'')] 0 =
     (Inr (VBool False), 0) \<and>
   has_button (example_node 0) (VStr ''med'') [(''locator'', VStr ''bar'')] 0 \<noteq>
     has_selector (example_node 0) [VStr ''button'', VStr ''med''] [(''locator'', VStr ''bar'')] 0"
proof -
  have e: "isinstance (Exn ExpectationNotMet m) ExpectationNotMet" for m
    by (simp add: isinstance_ExpectationNotMet)
  have l: "has_link (example_node 0) (VStr ''foo'') [(''locator'', VStr ''bar'')] 0 =
     (Inl (Exn TypeError
        (''has_link() got multiple values for argument '' @ [CHR 0x27] @ ''locator''
           @ [CHR 0x27])), 0)"
    by (simp add: has_link_def multiple_values_def)
  have b: "has_button (example_node 0) (VStr ''med'') [(''locator'', VStr ''bar'')] 0 =
     (Inl (Exn TypeError
        (''has_button() got multiple values for argument '' @ [CHR 0x27] @ ''locator''
           @ [CHR 0x27])), 0)"
    by (simp add: has_button_def multiple_values_def)
  have s1: "has_selector (example_node 0) [VStr ''link'', VStr ''foo''] [(''locator'', VStr ''bar'')] 0 =
     (Inr (VBool False), 0)"
    by (simp add: has_selector_def assert_selector_def assert_selector_probe_def
        example_node_def resolve_for_spec_def matching_def length_spec_def e)
  have s2: "has_selector (example_node 0) [VStr ''button'', VStr ''med''] [(''locator'', VStr ''bar'')] 0 =
     (Inr (VBool False), 0)"
    by (simp add: has_selector_def assert_selector_def assert_selector_probe_def
        example_node_def resolve_for_spec_def matching_def length_spec_def e)
  show ?thesis unfolding l b s1 s2 by simp
qed

text \<open>
  C7. \<open>has_content\<close> is \<open>has_text\<close>: the same operation, so for all arguments the two
  return the same value or raise the same exception.
\<close>

theorem has_content_is_has_text:
  "has_content = has_text \<and>
   has_content self args kwargs w = has_text self args kwargs w"
  by (simp add: has_content_def)

lemma has_selector_propagates:
  "assert_selector self args kwargs w = (Inl e, w') \<Longrightarrow> \<not> isinstance e ExpectationNotMet \<Longrightarrow>
   has_selector self args kwargs w = (Inl e, w')"
  by (simp add: has_selector_def)

lemma has_text_propagates:
  "assert_text self args kwargs w = (Inl e, w') \<Longrightarrow> \<not> isinstance e ExpectationNotMet \<Longrightarrow>
   has_text self args kwargs w = (Inl e, w')"
  by (simp add: has_text_def)

lemma outside_family_not_ExpectationNotMet:
  "\<not> isinstance e ElementNotFound \<Longrightarrow> \<not> isinstance e ExpectationNotMet"
  by (simp add: isinstance_ElementNotFound isinstance_ExpectationNotMet)

lemma assert_selector_first_other:
  assumes "synchronize self = synchronize_spec pause n"
    and "SelectorQuery self args kwargs = Inr q"
    and "selector_resolve_for self q w = (Inl e, w')"
    and "\<not> isinstance e ElementNotFound"
  shows "assert_selector self args kwargs w = (Inl e, w')"
proof -
  have "assert_selector_probe self q w = (Inl e, w')"
    using assms(3) by (simp add: assert_selector_probe_def)
  then have "synchronize_spec pause n (assert_selector_probe self q) w = (Inl e, w')"
    using assms(4) by (rule synchronize_spec_first_other)
  with assms(1,2) show ?thesis by (simp add: assert_selector_def)
qed

lemma assert_text_first_other:
  assumes "synchronize self = synchronize_spec pause n"
    and "TextQuery self args kwargs = Inr t"
    and "text_resolve_for self t w = (Inl e, w')"
    and "\<not> isinstance e ElementNotFound"
  shows "assert_text self args kwargs w = (Inl e, w')"
proof -
  have "assert_text_probe self t w = (Inl e, w')"
    using assms(3) by (simp add: assert_text_probe_def)
  then have "synchronize_spec pause n (assert_text_probe self t) w = (Inl e, w')"
    using assms(4) by (rule synchronize_spec_first_other)
  with assms(1,2) show ?thesis by (simp add: assert_text_def)
qed

lemma sublist_kind_failure_message: "sublist (kind (rs_spec r)) (failure_message_spec r)"
proof -
  have "failure_message_spec r =
      (''expected '' @ show_nat (expected_count (rs_spec r)) @ '' element matching '')
        @ kind (rs_spec r)
        @ ('' '' @ [CHR 0x27] @ locator (rs_spec r) @ [CHR 0x27] @ '', found ''
            @ show_nat (length (elements r)))"
    by (simp add: failure_message_spec_def)
  then show ?thesis unfolding sublist_def by blast
qed

lemma sublist_locator_failure_message:
  "sublist (locator (rs_spec r)) (failure_message_spec r)"
proof -
  have "failure_message_spec r =
      (''expected '' @ show_nat (expected_count (rs_spec r)) @ '' element matching ''
         @ kind (rs_spec r) @ '' '' @ [CHR 0x27])
        @ locator (rs_spec r)
        @ ([CHR 0x27] @ '', found '' @ show_nat (length (elements r)))"
    by (simp add: failure_message_spec_def)
  then show ?thesis unfolding sublist_def by blast
qed

lemma assert_selector_deciding:
  assumes "synchronize self = synchronize_spec pause n"
    and "SelectorQuery self args kwargs = Inr q"
    and "selector_resolve_for self q
           (last_attempt pause n (assert_selector_probe self q) w) = (Inl e, w')"
  shows "assert_selector self args kwargs w = (Inl e, w')"
  unfolding assert_selector_spec_sync [OF assms(2,1)]
  using assms(3) by (simp add: assert_selector_probe_def)

lemma assert_text_deciding:
  assumes "synchronize self = synchronize_spec pause n"
    and "TextQuery self args kwargs = Inr t"
    and "text_resolve_for self t
           (last_attempt pause n (assert_text_probe self t) w) = (Inl e, w')"
  shows "assert_text self args kwargs w = (Inl e, w')"
  unfolding assert_text_spec_sync [OF assms(2,1)]
  using assms(3) by (simp add: assert_text_probe_def)

text \<open>
  C8, as the code has it. A failure outside the \<open>ElementNotFound\<close> family is never caught
  by a \<open>has_*\<close> form. When it is raised while the query is constructed, it surfaces before
  the synchronization wrapper is entered: whatever the wrapper and the resolver are,
  none of them runs, no probe, no pause, and the world is as it was. When it is raised
  while the query is resolved, at the first attempt or at a later one, it surfaces from
  the probe that raised it, in the world that probe left: no pause and no retry follow
  (the engine of the spec). A convenience form called with a keyword that it cannot bind
  raises the \<open>TypeError\<close> of the binding, itself outside the family.
\<close>

theorem failure_outside_family_surfaces:
  assumes "\<not> isinstance e ElementNotFound"
  shows
    "(assert_selector self args kwargs w = (Inl e, w') \<longrightarrow>
       has_selector self args kwargs w = (Inl e, w')) \<and>
     (assert_selector self [VStr ''xpath'', x] kwargs w = (Inl e, w') \<longrightarrow>
       has_xpath self x kwargs w =
         (if ''query'' \<in> set (map fst kwargs)
          then (Inl (multiple_values ''has_xpath'' ''query''), w) else (Inl e, w'))) \<and>
     (assert_selector self [VStr ''css'', x] kwargs w = (Inl e, w') \<longrightarrow>
       has_css self x kwargs w =
         (if ''path'' \<in> set (map fst kwargs)
          then (Inl (multiple_values ''has_css'' ''path''), w) else (Inl e, w'))) \<and>
     (assert_selector self [VStr ''button'', x] kwargs w = (Inl e, w') \<longrightarrow>
       has_button self x kwargs w =
         (if ''locator'' \<in> set (map fst kwargs)
          then (Inl (multiple_values ''has_button'' ''locator''), w) else (Inl e, w'))) \<and>
     (assert_selector self [VStr ''link'', x] kwargs w = (Inl e, w') \<longrightarrow>
       has_link self x kwargs w =
         (if ''locator'' \<in> set (map fst kwargs)
          then (Inl (multiple_values ''has_link'' ''locator''), w) else (Inl e, w'))) \<and>
     \<not> isinstance (multiple_values f p) ElementNotFound \<and>
     (assert_text self args kwargs w = (Inl e, w') \<longrightarrow>
       has_text self args kwargs w = (Inl e, w') \<and>
       has_content self args kwargs w = (Inl e, w')) \<and>
     (SelectorQuery self args kwargs = Inl e \<longrightarrow>
       assert_selector (self\<lparr>synchronize := sync, selector_resolve_for := res\<rparr>) args kwargs w
         = (Inl e, w) \<and>
       has_selector (self\<lparr>synchronize := sync, selector_resolve_for := res\<rparr>) args kwargs w
         = (Inl e, w)) \<and>
     (TextQuery self args kwargs = Inl e \<longrightarrow>
       assert_text (self\<lparr>synchronize := sync, text_resolve_for := tres\<rparr>) args kwargs w
         = (Inl e, w) \<and>
       has_text (self\<lparr>synchronize := sync, text_resolve_for := tres\<rparr>) args kwargs w
         = (Inl e, w)) \<and>
     (synchronize self = synchronize_spec pause n \<and> SelectorQuery self args kwargs = Inr q \<and>
      selector_resolve_for self q w = (Inl e, w') \<longrightarrow>
       has_selector self args kwargs w = (Inl e, w')) \<and>
     (synchronize self = synchronize_spec pause n \<and> TextQuery self args kwargs = Inr t \<and>
      text_resolve_for self t w = (Inl e, w') \<longrightarrow>
       has_text self args kwargs w = (Inl e, w')) \<and>
     (synchronize self = synchronize_spec pause n \<and> SelectorQuery self args kwargs = Inr q \<and>
      selector_resolve_for self q
        (last_attempt pause n (assert_selector_probe self q) w) = (Inl e, w') \<longrightarrow>
       assert_selector self args kwargs w = (Inl e, w') \<and>
       has_selector self args kwargs w = (Inl e, w')) \<and>
     (synchronize self = synchronize_spec pause n \<and> TextQuery self args kwargs = Inr t \<and>
      text_resolve_for self t
        (last_attempt pause n (assert_text_probe self t) w) = (Inl e, w') \<longrightarrow>
       assert_text self args kwargs w = (Inl e, w') \<and>
       has_text self args kwargs w = (Inl e, w'))"
proof -
  from assms have ne: "\<not> isinstance e ExpectationNotMet"
    by (rule outside_family_not_ExpectationNotMet)
  have mv: "\<not> isinstance (multiple_values f p) ElementNotFound"
    by (simp add: multiple_values_def isinstance_ElementNotFound)
  have sel: "has_selector s a kwargs w = (Inl e, v)"
    if "assert_selector s a kwargs w = (Inl e, v)"
    for s :: "('a, 'b, 'c, 'd) node" and a v
    using that ne by (rule has_selector_propagates)
  have tx: "has_text s args kwargs w = (Inl e, v)"
    if "assert_text s args kwargs w = (Inl e, v)"
    for s :: "('a, 'b, 'c, 'd) node" and v
    using that ne by (rule has_text_propagates)
  have csel: "assert_selector (self\<lparr>synchronize := sync, selector_resolve_for := res\<rparr>)
      args kwargs w = (Inl e, w)"
    if "SelectorQuery self args kwargs = Inl e"
    using that by (simp add: assert_selector_def)
  have ctxt: "assert_text (self\<lparr>synchronize := sync, text_resolve_for := tres\<rparr>)
      args kwargs w = (Inl e, w)"
    if "TextQuery self args kwargs = Inl e"
    using that by (simp add: assert_text_def)
  have rsel: "has_selector self args kwargs w = (Inl e, w')"
    if "synchronize self = synchronize_spec pause n" "SelectorQuery self args kwargs = Inr q"
      "selector_resolve_for self q w = (Inl e, w')"
    by (rule sel) (rule assert_selector_first_other [OF that assms])
  have rtxt: "has_text self args kwargs w = (Inl e, w')"
    if "synchronize self = synchronize_spec pause n" "TextQuery self args kwargs = Inr t"
      "text_resolve_for self t w = (Inl e, w')"
    by (rule tx) (rule assert_text_first_other [OF that assms])
  have dsel: "assert_selector self args kwargs w = (Inl e, w')"
    if "synchronize self = synchronize_spec pause n" "SelectorQuery self args kwargs = Inr q"
      "selector_resolve_for self q
         (last_attempt pause n (assert_selector_probe self q) w) = (Inl e, w')"
    using that by (rule assert_selector_deciding)
  have dtxt: "assert_text self args kwargs w = (Inl e, w')"
    if "synchronize self = synchronize_spec pause n" "TextQuery self args kwargs = Inr t"
      "text_resolve_for self t
         (last_attempt pause n (assert_text_probe self t) w) = (Inl e, w')"
    using that by (rule assert_text_deciding)
  from mv sel [of self] tx [of self] csel sel [OF csel] ctxt tx [OF ctxt] rsel rtxt
    dsel sel [OF dsel] dtxt tx [OF dtxt]
  show ?thesis
    by (simp add: has_xpath_def has_css_def has_button_def has_link_def has_content_def)
qed

theorem failure_outside_family_surfaces_witness:
  "\<not> isinstance (Exn TypeError ''malformed selector'') ElementNotFound \<and>
   SelectorQuery (raising_node WindowError 3) [] [] = Inl (Exn TypeError ''malformed selector'') \<and>
   has_selector (raising_node WindowError 3) [] [] \<lparr>probes = 0, pauses = 0\<rparr> =
     (Inl (Exn TypeError ''malformed selector''), \<lparr>probes = 0, pauses = 0\<rparr>) \<and>
   \<not> isinstance (Exn WindowError ''raised while resolving'') ElementNotFound \<and>
   selector_resolve_for (stale_node WindowError 3)
       \<lparr>kind = ''css'', locator = ''p'', filters = [],
        exact_count = None, minimum_count = None, maximum_count = None\<rparr>
       \<lparr>probes = 1, pauses = 1\<rparr> =
     (Inl (Exn WindowError ''raised while resolving''), \<lparr>probes = 2, pauses = 1\<rparr>) \<and>
   has_selector (stale_node WindowError 3) [VStr ''css'', VStr ''p''] []
       \<lparr>probes = 0, pauses = 0\<rparr> =
     (Inl (Exn WindowError ''raised while resolving''), \<lparr>probes = 2, pauses = 1\<rparr>)"
proof -
  let ?n = "raising_node WindowError 3"
  let ?e = "Exn TypeError ''malformed selector''"
  let ?w = "\<lparr>probes = 0, pauses = 0\<rparr>"
  have f: "\<not> isinstance ?e ElementNotFound"
    by (simp add: isinstance_ElementNotFound)
  have q: "SelectorQuery ?n [] [] = Inl ?e"
    by (simp add: raising_node_def)
  have u: "?n\<lparr>synchronize := synchronize ?n, selector_resolve_for := selector_resolve_for ?n\<rparr> = ?n"
    by simp
  from failure_outside_family_surfaces [OF f, where self = ?n and args = "[]"
      and kwargs = "[]" and w = ?w and sync = "synchronize ?n"
      and res = "selector_resolve_for ?n"] q
  have "has_selector (?n\<lparr>synchronize := synchronize ?n,
      selector_resolve_for := selector_resolve_for ?n\<rparr>) [] [] ?w = (Inl ?e, ?w)"
    by blast
  then have a: "has_selector ?n [] [] ?w = (Inl ?e, ?w)"
    unfolding u .
  let ?s = "stale_node WindowError 3"
  let ?x = "Exn WindowError ''raised while resolving''"
  let ?S = "\<lparr>kind = ''css'', locator = ''p'', filters = [],
        exact_count = None, minimum_count = None, maximum_count = None\<rparr>"
  let ?pause = "\<lambda>w. w\<lparr>pauses := Suc (pauses w)\<rparr>"
  have g: "\<not> isinstance ?x ElementNotFound"
    by (simp add: isinstance_ElementNotFound)
  have sy: "synchronize ?s = synchronize_spec ?pause 3"
    by (simp add: stale_node_def)
  have sq: "SelectorQuery ?s [VStr ''css'', VStr ''p''] [] = Inr ?S"
    by (simp add: stale_node_def)
  have fam: "isinstance (Exn ExpectationNotMet m) ElementNotFound" for m
    by (simp add: isinstance_ElementNotFound)
  have la: "last_attempt ?pause 3 (assert_selector_probe ?s ?S) ?w = \<lparr>probes = 1, pauses = 1\<rparr>"
    by (simp add: eval_nat_numeral assert_selector_probe_def stale_node_def length_spec_def
        fam g)
  have r: "selector_resolve_for ?s ?S \<lparr>probes = 1, pauses = 1\<rparr> =
      (Inl ?x, \<lparr>probes = 2, pauses = 1\<rparr>)"
    by (simp add: stale_node_def)
  have r': "selector_resolve_for ?s ?S (last_attempt ?pause 3 (assert_selector_probe ?s ?S) ?w) =
      (Inl ?x, \<lparr>probes = 2, pauses = 1\<rparr>)"
    unfolding la by (rule r)
  from failure_outside_family_surfaces [OF g, where self = ?s
      and args = "[VStr ''css'', VStr ''p'']" and kwargs = "[]" and w = ?w
      and w' = "\<lparr>probes = 2, pauses = 1\<rparr>" and pause = ?pause and n = 3 and q = ?S] sy sq r'
  have b: "has_selector ?s [VStr ''css'', VStr ''p''] [] ?w = (Inl ?x, \<lparr>probes = 2, pauses = 1\<rparr>)"
    by blast
  from f q a g r b show ?thesis by blast
qed

text \<open>
  C8, as stated, fails where the failure is raised while the query is resolved: a
  \<open>ScopeError\<close> of the resolver, outside the \<open>ElementNotFound\<close> family, surfaces from
  \<open>has_selector\<close> after one probe has run, not before any.
\<close>

theorem failure_while_resolving_surfaces_after_a_probe:
  "\<not> isinstance (Exn ScopeError ''raised while resolving'') ElementNotFound \<and>
   has_selector (raising_node ScopeError 3) [VStr ''css'', VStr ''p''] []
       \<lparr>probes = 0, pauses = 0\<rparr> =
     (Inl (Exn ScopeError ''raised while resolving''), \<lparr>probes = 1, pauses = 0\<rparr>) \<and>
   probes (snd (has_selector (raising_node ScopeError 3) [VStr ''css'', VStr ''p''] []
       \<lparr>probes = 0, pauses = 0\<rparr>)) \<noteq> 0"
  by (simp add: has_selector_def assert_selector_def assert_selector_probe_def
      raising_node_def eval_nat_numeral isinstance_def issubclass_def mro_eqs)

text \<open>
  C9. With the selector query, the result set and the engine of the spec: when the query
  built from the arguments is the specification \<open>S\<close> and no element of the scope matches
  \<open>S\<close> at any attempt within the wait time, \<open>has_selector\<close> returns \<open>False\<close> and
  \<open>assert_selector\<close> raises an \<open>ExpectationNotMet\<close> whose message contains the kind and
  the locator of \<open>S\<close>. Both return after the last of the \<open>n\<close> pauses.
\<close>

theorem zero_matches_False_and_ExpectationNotMet:
  fixes find_all :: "'w \<Rightarrow> string \<Rightarrow> string \<Rightarrow> 'h list"
  assumes "SelectorQuery self args kwargs = Inr S"
    and "selector_resolve_for self = resolve_for_spec find_all satisfies"
    and "result_len self = length_spec"
    and "result_failure_message self = failure_message_spec"
    and "synchronize self = synchronize_spec pause n"
    and "\<forall>k\<le>n. matching find_all satisfies S ((pause ^^ k) w) = []"
  shows "has_selector self args kwargs w = (Inr (VBool False), (pause ^^ n) w) \<and>
         (\<exists>msg. assert_selector self args kwargs w =
                   (Inl (Exn ExpectationNotMet msg), (pause ^^ n) w) \<and>
                 sublist (kind S) msg \<and> sublist (locator S) msg)"
proof -
  let ?r = "\<lparr>elements = [], rs_spec = S\<rparr> :: 'h result_set"
  let ?msg = "failure_message_spec ?r"
  have probe: "assert_selector_probe self S ((pause ^^ k) w) =
      (Inl (Exn ExpectationNotMet ?msg), (pause ^^ k) w)" if "k \<le> n" for k
    using assms(2,3,4,6) that
    by (simp add: assert_selector_probe_def resolve_for_spec_def length_spec_def)
  have fam: "isinstance (Exn ExpectationNotMet ?msg) ElementNotFound"
    by (simp add: isinstance_ElementNotFound)
  have "synchronize_spec pause n (assert_selector_probe self S) w =
      assert_selector_probe self S ((pause ^^ n) w)"
    by (rule synchronize_spec_all_unsatisfied) (use probe fam in blast)
  with probe [of n] assms(1,5)
  have a: "assert_selector self args kwargs w =
      (Inl (Exn ExpectationNotMet ?msg), (pause ^^ n) w)"
    by (simp add: assert_selector_def)
  then have h: "has_selector self args kwargs w = (Inr (VBool False), (pause ^^ n) w)"
    by (simp add: has_selector_cases)
  have "sublist (kind S) ?msg" "sublist (locator S) ?msg"
    using sublist_kind_failure_message [of ?r] sublist_locator_failure_message [of ?r]
    by simp_all
  with a h show ?thesis by blast
qed

theorem zero_matches_False_and_ExpectationNotMet_witness:
  "has_selector (example_node 2) [VStr ''css'', VStr ''a#bar''] [] 0 = (Inr (VBool False), 2) \<and>
   (\<exists>msg. assert_selector (example_node 2) [VStr ''css'', VStr ''a#bar''] [] 0 =
             (Inl (Exn ExpectationNotMet msg), 2) \<and>
           sublist ''css'' msg \<and> sublist ''a#bar'' msg)"
proof -
  let ?S = "\<lparr>kind = ''css'', locator = ''a#bar'', filters = [],
          exact_count = None, minimum_count = None, maximum_count = None\<rparr>"
  have 1: "SelectorQuery (example_node 2) [VStr ''css'', VStr ''a#bar''] [] = Inr ?S"
    by (simp add: example_node_def)
  have 2: "selector_resolve_for (example_node 2) =
      resolve_for_spec example_find_all example_satisfies"
    by (simp add: example_node_def)
  have 3: "result_len (example_node 2) = length_spec"
    by (simp add: example_node_def)
  have 4: "result_failure_message (example_node 2) = failure_message_spec"
    by (simp add: example_node_def)
  have 5: "synchronize (example_node 2) = synchronize_spec Suc 2"
    by (simp add: example_node_def)
  have 6: "\<forall>k\<le>2. matching example_find_all example_satisfies ?S ((Suc ^^ k) 0) = []"
    by (simp add: matching_def)
  have 7: "(Suc ^^ 2) 0 = 2"
    by (simp add: eval_nat_numeral)
  from zero_matches_False_and_ExpectationNotMet [OF 1 2 3 4 5 6]
  show ?thesis unfolding 7 by simp
qed

text \<open>
  C10. \<open>ModalNotFound\<close>, \<open>FileNotFound\<close>, \<open>UnselectNotAllowed\<close>, \<open>ScopeError\<close> and
  \<open>WindowError\<close> derive from \<open>CapybaraError\<close> and not from \<open>ElementNotFound\<close>. An
  exception of one of these classes that \<open>assert_selector\<close> or \<open>assert_text\<close> raises is
  raised by \<open>has_selector\<close>, \<open>has_xpath\<close>, \<open>has_css\<close>, \<open>has_button\<close>, \<open>has_link\<close>,
  \<open>has_text\<close> and \<open>has_content\<close>, never turned into \<open>False\<close>; with the engine of the
  spec, one raised while the query is resolved, at any attempt, comes out of the \<open>has_*\<close>
  form as it is. (A convenience form called with a keyword that it cannot bind raises the
  \<open>TypeError\<close> of the binding and resolves nothing.)
\<close>

theorem other_library_errors_propagate:
  assumes "c \<in> {ModalNotFound, FileNotFound, UnselectNotAllowed, ScopeError, WindowError}"
  shows "issubclass c CapybaraError \<and> \<not> issubclass c ElementNotFound \<and>
    (assert_selector self args kwargs w = (Inl (Exn c m), w') \<longrightarrow>
       has_selector self args kwargs w = (Inl (Exn c m), w')) \<and>
    (assert_selector self [VStr ''xpath'', x] kwargs w = (Inl (Exn c m), w') \<longrightarrow>
       has_xpath self x kwargs w =
         (if ''query'' \<in> set (map fst kwargs)
          then (Inl (multiple_values ''has_xpath'' ''query''), w) else (Inl (Exn c m), w'))) \<and>
    (assert_selector self [VStr ''css'', x] kwargs w = (Inl (Exn c m), w') \<longrightarrow>
       has_css self x kwargs w =
         (if ''path'' \<in> set (map fst kwargs)
          then (Inl (multiple_values ''has_css'' ''path''), w) else (Inl (Exn c m), w'))) \<and>
    (assert_selector self [VStr ''button'', x] kwargs w = (Inl (Exn c m), w') \<longrightarrow>
       has_button self x kwargs w =
         (if ''locator'' \<in> set (map fst kwargs)
          then (Inl (multiple_values ''has_button'' ''locator''), w) else (Inl (Exn c m), w'))) \<and>
    (assert_selector self [VStr ''link'', x] kwargs w = (Inl (Exn c m), w') \<longrightarrow>
       has_link self x kwargs w =
         (if ''locator'' \<in> set (map fst kwargs)
          then (Inl (multiple_values ''has_link'' ''locator''), w) else (Inl (Exn c m), w'))) \<and>
    (assert_text self args kwargs w = (Inl (Exn c m), w') \<longrightarrow>
       has_text self args kwargs w = (Inl (Exn c m), w') \<and>
       has_content self args kwargs w = (Inl (Exn c m), w')) \<and>
    (synchronize self = synchronize_spec pause n \<and> SelectorQuery self args kwargs = Inr q \<and>
     selector_resolve_for self q w = (Inl (Exn c m), w') \<longrightarrow>
       has_selector self args kwargs w = (Inl (Exn c m), w')) \<and>
    (synchronize self = synchronize_spec pause n \<and> TextQuery self args kwargs = Inr t \<and>
     text_resolve_for self t w = (Inl (Exn c m), w') \<longrightarrow>
       has_text self args kwargs w = (Inl (Exn c m), w')) \<and>
    (synchronize self = synchronize_spec pause n \<and> SelectorQuery self args kwargs = Inr q \<and>
     selector_resolve_for self q
       (last_attempt pause n (assert_selector_probe self q) w) = (Inl (Exn c m), w') \<longrightarrow>
       has_selector self args kwargs w = (Inl (Exn c m), w')) \<and>
    (synchronize self = synchronize_spec pause n \<and> TextQuery self args kwargs = Inr t \<and>
     text_resolve_for self t
       (last_attempt pause n (assert_text_probe self t) w) = (Inl (Exn c m), w') \<longrightarrow>
       has_text self args kwargs w = (Inl (Exn c m), w'))"
proof -
  from assms have sub: "issubclass c CapybaraError" "\<not> issubclass c ElementNotFound"
    by (auto simp: issubclass_CapybaraError issubclass_ElementNotFound)
  then have fam: "\<not> isinstance (Exn c m) ElementNotFound"
    by (simp add: isinstance_def)
  then have ne: "\<not> isinstance (Exn c m) ExpectationNotMet"
    by (rule outside_family_not_ExpectationNotMet)
  have sel: "has_selector self a kwargs w = (Inl (Exn c m), w')"
    if "assert_selector self a kwargs w = (Inl (Exn c m), w')" for a
    using that ne by (rule has_selector_propagates)
  have tx: "has_text self args kwargs w = (Inl (Exn c m), w')"
    if "assert_text self args kwargs w = (Inl (Exn c m), w')"
    using that ne by (rule has_text_propagates)
  have rsel: "has_selector self args kwargs w = (Inl (Exn c m), w')"
    if "synchronize self = synchronize_spec pause n" "SelectorQuery self args kwargs = Inr q"
      "selector_resolve_for self q w = (Inl (Exn c m), w')"
    by (rule sel) (rule assert_selector_first_other [OF that fam])
  have rtxt: "has_text self args kwargs w = (Inl (Exn c m), w')"
    if "synchronize self = synchronize_spec pause n" "TextQuery self args kwargs = Inr t"
      "text_resolve_for self t w = (Inl (Exn c m), w')"
    by (rule tx) (rule assert_text_first_other [OF that fam])
  have dsel: "has_selector self args kwargs w = (Inl (Exn c m), w')"
    if "synchronize self = synchronize_spec pause n" "SelectorQuery self args kwargs = Inr q"
      "selector_resolve_for self q
         (last_attempt pause n (assert_selector_probe self q) w) = (Inl (Exn c m), w')"
    by (rule sel) (rule assert_selector_deciding [OF that])
  have dtxt: "has_text self args kwargs w = (Inl (Exn c m), w')"
    if "synchronize self = synchronize_spec pause n" "TextQuery self args kwargs = Inr t"
      "text_resolve_for self t
         (last_attempt pause n (assert_text_probe self t) w) = (Inl (Exn c m), w')"
    by (rule tx) (rule assert_text_deciding [OF that])
  from sub sel tx rsel rtxt dsel dtxt show ?thesis
    by (simp add: has_xpath_def has_css_def has_button_def has_link_def has_content_def)
qed

theorem other_library_errors_propagate_witness:
  "issubclass ModalNotFound CapybaraError \<and> \<not> issubclass ModalNotFound ElementNotFound \<and>
   has_selector (raising_node ModalNotFound 2) [VStr ''css'', VStr ''#modal''] []
       \<lparr>probes = 0, pauses = 0\<rparr> =
     (Inl (Exn ModalNotFound ''raised while resolving''), \<lparr>probes = 1, pauses = 0\<rparr>) \<and>
   has_text (raising_node ModalNotFound 2) [VStr ''Bar''] [] \<lparr>probes = 0, pauses = 0\<rparr> =
     (Inl (Exn ModalNotFound ''raised while resolving''), \<lparr>probes = 1, pauses = 0\<rparr>)"
proof -
  let ?n = "raising_node ModalNotFound 2"
  let ?w = "\<lparr>probes = 0, pauses = 0\<rparr>"
  let ?w' = "\<lparr>probes = 1, pauses = 0\<rparr>"
  let ?S = "\<lparr>kind = ''css'', locator = ''#modal'', filters = [],
          exact_count = None, minimum_count = None, maximum_count = None\<rparr>"
  have c: "ModalNotFound \<in> {ModalNotFound, FileNotFound, UnselectNotAllowed, ScopeError, WindowError}"
    by simp
  have s: "synchronize ?n = synchronize_spec (\<lambda>w. w\<lparr>pauses := Suc (pauses w)\<rparr>) 2"
    by (simp add: raising_node_def)
  have q: "SelectorQuery ?n [VStr ''css'', VStr ''#modal''] [] = Inr ?S"
    by (simp add: raising_node_def)
  have t: "TextQuery ?n [VStr ''Bar''] [] = Inr ''Bar''"
    by (simp add: raising_node_def)
  have r: "selector_resolve_for ?n ?S ?w = (Inl (Exn ModalNotFound ''raised while resolving''), ?w')"
    by (simp add: raising_node_def)
  have rt: "text_resolve_for ?n ''Bar'' ?w = (Inl (Exn ModalNotFound ''raised while resolving''), ?w')"
    by (simp add: raising_node_def)
  from other_library_errors_propagate [OF c, where self = ?n
      and args = "[VStr ''css'', VStr ''#modal'']" and kwargs = "[]" and w = ?w
      and m = "''raised while resolving''" and w' = ?w' and n = 2 and q = ?S
      and pause = "\<lambda>w. w\<lparr>pauses := Suc (pauses w)\<rparr>"] s q r
  have 1: "issubclass ModalNotFound CapybaraError" "\<not> issubclass ModalNotFound ElementNotFound"
    "has_selector ?n [VStr ''css'', VStr ''#modal''] [] ?w =
       (Inl (Exn ModalNotFound ''raised while resolving''), ?w')"
    by blast+
  from other_library_errors_propagate [OF c, where self = ?n
      and args = "[VStr ''Bar'']" and kwargs = "[]" and w = ?w
      and m = "''raised while resolving''" and w' = ?w' and n = 2 and t = "''Bar''"
      and pause = "\<lambda>w. w\<lparr>pauses := Suc (pauses w)\<rparr>"] s t rt
  have 2: "has_text ?n [VStr ''Bar''] [] ?w =
       (Inl (Exn ModalNotFound ''raised while resolving''), ?w')"
    by blast
  from 1 2 show ?thesis by blast
qed

end
